theory Spec2Isabelle
  imports Main "HOL-Library.Word"
begin

section \<open>The VM tracer of buidler-core (stack-traces/vm-tracer.ts)\<close>

text \<open>
  The tracer listens to the three events of the VM (\<open>beforeMessage\<close>, \<open>step\<close>,
  \<open>afterMessage\<close>) and builds the tree of message traces of the last top-level message.
  The TypeScript keeps that tree as JavaScript objects that reference each other: a child
  trace is pushed both into \<open>parentTrace.steps\<close> and onto \<open>_messageTraces\<close>, and is
  mutated later through the second reference. The model therefore has an explicit store:
  a trace object lives at an address of \<open>heap\<close>, and \<open>steps\<close> and
  \<open>_messageTraces\<close> hold addresses.
\<close>

subsection \<open>Data model\<close>

type_synonym bytes = "8 word list"  \<comment> \<open>a Node Buffer\<close>

type_synonym ref = nat  \<comment> \<open>the address of a trace object in the store\<close>

datatype VmError = VmError string  \<comment> \<open>\<open>result.execResult.exceptionError\<close>\<close>

text \<open>
  What a handler can throw: an \<open>Error\<close> that the tracer constructs itself with a message,
  the \<open>TypeError\<close> of JavaScript for reading or writing a property of \<open>undefined\<close>, and
  whatever the promise of \<open>getContractCode\<close> rejects with.
\<close>

datatype exn = Error string | TypeError | Rejected string

text \<open>
  Modelled from the spec: the types of \<open>message-trace.ts\<close> (\<open>MessageTrace\<close>,
  \<open>MessageTraceStep\<close>) and its predicates \<open>isPrecompileTrace\<close> and \<open>isCreateTrace\<close>,
  which this file imports and which are not among the sources. The fields follow section 3
  of the specification and the object literals of \<open>_beforeMessageHandler\<close>; the optional
  field \<open>error\<close> is \<open>None\<close> while it is absent. The field \<open>value\<close> is called
  \<open>trace_value\<close> here.
\<close>

datatype MessageTraceStep =
    EvmStep nat  \<comment> \<open>\<open>{ pc: step.pc }\<close>\<close>
  | SubTrace ref  \<comment> \<open>a nested message trace, by reference\<close>

datatype MessageTrace =
    CreateMessageTrace
      (code: bytes) (steps: "MessageTraceStep list") (trace_value: nat) (returnData: bytes)
      (numberOfSubtraces: nat) (depth: nat) (deployedContract: "bytes option")
      (error: "VmError option")
  | CallMessageTrace
      (code: bytes) (calldata: bytes) (steps: "MessageTraceStep list") (trace_value: nat)
      (returnData: bytes) (address: bytes) (numberOfSubtraces: nat) (depth: nat)
      (error: "VmError option")
  | PrecompileMessageTrace
      (precompile: nat) (calldata: bytes) (trace_value: nat) (returnData: bytes) (depth: nat)
      (error: "VmError option")

text \<open>
  Modelled from the spec: \<open>isPrecompileTrace\<close> and \<open>isCreateTrace\<close> of
  \<open>message-trace.ts\<close>, which tell the variant of a trace object. They look into the
  object they are given, so the handlers below throw a \<open>TypeError\<close> where they would
  pass \<open>undefined\<close>.
\<close>

fun isPrecompileTrace :: "MessageTrace \<Rightarrow> bool" where
  "isPrecompileTrace (PrecompileMessageTrace p cd v rd d e) = True"
| "isPrecompileTrace _ = False"

fun isCreateTrace :: "MessageTrace \<Rightarrow> bool" where
  "isCreateTrace (CreateMessageTrace c ss v rd n d dc e) = True"
| "isCreateTrace _ = False"

fun isSubTrace :: "MessageTraceStep \<Rightarrow> bool" where
  "isSubTrace (SubTrace r) = True"
| "isSubTrace (EvmStep p) = False"

text \<open>The assignments to the fields of a trace object that the handlers make.\<close>

fun set_error :: "VmError option \<Rightarrow> MessageTrace \<Rightarrow> MessageTrace" where
  "set_error x (CreateMessageTrace c ss v rd n d dc e) = CreateMessageTrace c ss v rd n d dc x"
| "set_error x (CallMessageTrace c cd ss v rd a n d e) = CallMessageTrace c cd ss v rd a n d x"
| "set_error x (PrecompileMessageTrace p cd v rd d e) = PrecompileMessageTrace p cd v rd d x"

fun set_returnData :: "bytes \<Rightarrow> MessageTrace \<Rightarrow> MessageTrace" where
  "set_returnData x (CreateMessageTrace c ss v rd n d dc e) = CreateMessageTrace c ss v x n d dc e"
| "set_returnData x (CallMessageTrace c cd ss v rd a n d e) = CallMessageTrace c cd ss v x a n d e"
| "set_returnData x (PrecompileMessageTrace p cd v rd d e) = PrecompileMessageTrace p cd v x d e"

text \<open>
  \<open>trace.deployedContract = ...\<close> is reached for a create trace only, \<open>trace.steps.push\<close>
  and \<open>numberOfSubtraces += 1\<close> only behind the test that the trace is no precompile
  trace; the remaining equations are never used by the handlers.
\<close>

fun set_deployedContract :: "bytes option \<Rightarrow> MessageTrace \<Rightarrow> MessageTrace" where
  "set_deployedContract x (CreateMessageTrace c ss v rd n d dc e) =
     CreateMessageTrace c ss v rd n d x e"
| "set_deployedContract x t = t"

fun steps_push :: "MessageTraceStep \<Rightarrow> MessageTrace \<Rightarrow> MessageTrace" where
  "steps_push s (CreateMessageTrace c ss v rd n d dc e) =
     CreateMessageTrace c (ss @ [s]) v rd n d dc e"
| "steps_push s (CallMessageTrace c cd ss v rd a n d e) =
     CallMessageTrace c cd (ss @ [s]) v rd a n d e"
| "steps_push s t = t"

fun inc_numberOfSubtraces :: "MessageTrace \<Rightarrow> MessageTrace" where
  "inc_numberOfSubtraces (CreateMessageTrace c ss v rd n d dc e) =
     CreateMessageTrace c ss v rd (n + 1) d dc e"
| "inc_numberOfSubtraces (CallMessageTrace c cd ss v rd a n d e) =
     CallMessageTrace c cd ss v rd a (n + 1) d e"
| "inc_numberOfSubtraces t = t"

text \<open>
  The arguments of the events, as far as the tracer reads them: \<open>Message\<close>
  (\<open>to\<close>, \<open>data\<close>, \<open>value\<close>, \<open>depth\<close>, \<open>_codeAddress\<close>), \<open>InterpreterStep\<close> (\<open>pc\<close>) and
  \<open>EVMResult\<close> (\<open>execResult.exceptionError\<close>, \<open>execResult.returnValue\<close>,
  \<open>createdAddress\<close>).
\<close>

record Message =
  to :: "bytes option"
  data :: bytes
  msg_value :: nat
  msg_depth :: nat
  codeAddress :: "bytes option"

record InterpreterStep =
  pc :: nat

record EVMResult =
  exceptionError :: "VmError option"
  returnValue :: bytes
  createdAddress :: "bytes option"

text \<open>
  The fields of the class, and the store of trace objects. Depths, program counters and
  \<open>numberOfSubtraces\<close> are JavaScript numbers holding small non-negative integers, and
  \<open>nat\<close> here. \<open>_vm\<close> is not a field of the
  model: its state manager's \<open>getContractCode\<close> is a parameter of the handler that
  calls it, and the subscription of the handlers is the event source's business.
\<close>

record VMTracer =
  messageTraces :: "ref list"
  enabled :: bool
  dontThrowErrors :: bool
  lastError :: "exn option"
  heap :: "MessageTrace list"

subsection \<open>Constants\<close>

text \<open>
  \<open>MAX_PRECOMPILE_NUMBER = Object.keys(precompiles).length + 1\<close>; the table
  \<open>precompiles\<close> belongs to the VM package, so its list of keys is a parameter.
\<close>

definition MAX_PRECOMPILE_NUMBER :: "'k list \<Rightarrow> nat" where
  "MAX_PRECOMPILE_NUMBER precompiles = length precompiles + 1"

definition DUMMY_RETURN_DATA :: bytes where
  "DUMMY_RETURN_DATA = []"

text \<open>\<open>new BN(buffer)\<close>: the bytes read as a big-endian unsigned integer.\<close>

definition BN :: "bytes \<Rightarrow> nat" where
  "BN bs = foldl (\<lambda>acc b. acc * 256 + unat b) 0 bs"

subsection \<open>Construction, switches and queries\<close>

text \<open>
  The constructor: the initial values of the fields. Its call of \<open>getUserConfigPath\<close>
  assigns a local that is never read.
\<close>

definition new_VMTracer :: "bool \<Rightarrow> VMTracer" where
  "new_VMTracer dontThrow =
     \<lparr>messageTraces = [], enabled = False, dontThrowErrors = dontThrow, lastError = None,
      heap = []\<rparr>"

definition enableTracing :: "VMTracer \<Rightarrow> VMTracer" where
  "enableTracing t = t\<lparr>enabled := True\<rparr>"

definition disableTracing :: "VMTracer \<Rightarrow> VMTracer" where
  "disableTracing t = t\<lparr>enabled := False\<rparr>"

definition getLastTopLevelMessageTrace :: "VMTracer \<Rightarrow> exn + ref" where
  "getLastTopLevelMessageTrace t =
     (if \<not> enabled t then
        Inl (Error ''You can't get a vm trace if the VMTracer is disabled'')
      else if length (messageTraces t) = 0 then
        Inl (Error ''You can't get a vm trace if no message was executed yet'')
      else Inr (messageTraces t ! 0))"

definition getLastError :: "VMTracer \<Rightarrow> exn option" where
  "getLastError t = lastError t"

definition clearLastError :: "VMTracer \<Rightarrow> VMTracer" where
  "clearLastError t = t\<lparr>lastError := None\<rparr>"

definition shouldKeepTracing :: "VMTracer \<Rightarrow> bool" where
  "shouldKeepTracing t \<longleftrightarrow> \<not> dontThrowErrors t \<or> lastError t = None"

subsection \<open>The handlers\<close>

text \<open>
  The VM awaits a handler before it emits the next event, so each handler is a function
  from the tracer before the event to the tracer after it. What a handler does besides
  changing the tracer is the argument it gives to \<open>next\<close> (\<open>None\<close> for \<open>next()\<close>)
  and the error it sends to the error reporter, if any. The continuation \<open>next\<close> and
  the error reporter are outside the tracer and are taken to return normally.
\<close>

record outcome =
  next_arg :: "exn option"
  reported :: "exn option"
  tracer :: VMTracer

text \<open>
  The \<open>catch\<close> block, which is the same in the three handlers. A \<open>try\<close> block below
  returns the error it throws, if any, with the tracer as it is at that moment: what it
  has assigned before throwing stays assigned.
\<close>

definition catch_block :: "exn option \<times> VMTracer \<Rightarrow> outcome" where
  "catch_block r =
     (case r of
        (None, t) \<Rightarrow> \<lparr>next_arg = None, reported = None, tracer = t\<rparr>
      | (Some err, t) \<Rightarrow>
          if dontThrowErrors t then
            \<lparr>next_arg = None, reported = Some err, tracer = t\<lparr>lastError := Some err\<rparr>\<rparr>
          else \<lparr>next_arg = Some err, reported = Some err, tracer = t\<rparr>)"

text \<open>
  Lines 103 to 149 of \<open>_beforeMessageHandler\<close>: the trace object for a message.
  \<open>getContractCode\<close> is awaited for a call only, and its rejection is thrown.
\<close>

definition new_trace ::
  "(bytes \<Rightarrow> exn + bytes) \<Rightarrow> 'k list \<Rightarrow> Message \<Rightarrow> exn + MessageTrace" where
  "new_trace getContractCode precompiles message =
     (case to message of
        None \<Rightarrow>
          Inr (CreateMessageTrace (data message) [] (msg_value message) DUMMY_RETURN_DATA 0
                 (msg_depth message) None None)
      | Some target \<Rightarrow>
          let toAsBn = BN target in
          if 0 < toAsBn \<and> toAsBn \<le> MAX_PRECOMPILE_NUMBER precompiles then
            Inr (PrecompileMessageTrace toAsBn (data message) (msg_value message)
                   DUMMY_RETURN_DATA (msg_depth message) None)
          else
            let codeAddr = (case codeAddress message of Some a \<Rightarrow> a | None \<Rightarrow> target) in
            case getContractCode codeAddr of
              Inl err \<Rightarrow> Inl err
            | Inr c \<Rightarrow>
                Inr (CallMessageTrace c (data message) [] (msg_value message)
                       DUMMY_RETURN_DATA target 0 (msg_depth message) None))"

text \<open>
  The \<open>try\<close> block of \<open>_beforeMessageHandler\<close>. The new object gets the next free
  address of the store when it is attached; an object that is built and then dropped by
  the \<open>throw\<close> is never seen again and is not stored.
\<close>

definition beforeMessage_try ::
  "(bytes \<Rightarrow> exn + bytes) \<Rightarrow> 'k list \<Rightarrow> Message \<Rightarrow> VMTracer \<Rightarrow> exn option \<times> VMTracer" where
  "beforeMessage_try getContractCode precompiles message t =
     (let t1 = (if msg_depth message = 0 then t\<lparr>messageTraces := []\<rparr> else t) in
      case new_trace getContractCode precompiles message of
        Inl err \<Rightarrow> (Some err, t1)
      | Inr trace \<Rightarrow>
          let r = length (heap t1) in
          if length (messageTraces t1) > 0 then
            let p = messageTraces t1 ! (length (messageTraces t1) - 1);
                parentTrace = heap t1 ! p
            in
              if isPrecompileTrace parentTrace then
                (Some (Error ''This should not happen: message execution started while a precompile was executing''),
                 t1)
              else
                (None,
                 t1\<lparr>heap := (heap t1)[p := inc_numberOfSubtraces (steps_push (SubTrace r) parentTrace)]
                              @ [trace],
                    messageTraces := messageTraces t1 @ [r]\<rparr>)
          else (None, t1\<lparr>heap := heap t1 @ [trace], messageTraces := messageTraces t1 @ [r]\<rparr>))"

definition beforeMessageHandler ::
  "(bytes \<Rightarrow> exn + bytes) \<Rightarrow> 'k list \<Rightarrow> Message \<Rightarrow> VMTracer \<Rightarrow> outcome" where
  "beforeMessageHandler getContractCode precompiles message t =
     (if \<not> shouldKeepTracing t then \<lparr>next_arg = None, reported = None, tracer = t\<rparr>
      else catch_block (beforeMessage_try getContractCode precompiles message t))"

text \<open>
  The \<open>try\<close> block of \<open>_stepHandler\<close>. With no open frame
  \<open>_messageTraces[_messageTraces.length - 1]\<close> is \<open>undefined\<close>, and looking into it
  throws a \<open>TypeError\<close>.
\<close>

definition step_try :: "InterpreterStep \<Rightarrow> VMTracer \<Rightarrow> exn option \<times> VMTracer" where
  "step_try step t =
     (if length (messageTraces t) = 0 then (Some TypeError, t)
      else
        let r = messageTraces t ! (length (messageTraces t) - 1);
            trace = heap t ! r
        in
          if isPrecompileTrace trace then
            (Some (Error ''This should not happen: step event fired while a precompile was executing''),
             t)
          else (None, t\<lparr>heap := (heap t)[r := steps_push (EvmStep (pc step)) trace]\<rparr>))"

definition stepHandler :: "InterpreterStep \<Rightarrow> VMTracer \<Rightarrow> outcome" where
  "stepHandler step t =
     (if \<not> shouldKeepTracing t then \<lparr>next_arg = None, reported = None, tracer = t\<rparr>
      else catch_block (step_try step t))"

text \<open>
  The \<open>try\<close> block of \<open>_afterMessageHandler\<close>. With no open frame the first assignment,
  \<open>trace.error = ...\<close>, throws a \<open>TypeError\<close>.
\<close>

definition afterMessage_try :: "EVMResult \<Rightarrow> VMTracer \<Rightarrow> exn option \<times> VMTracer" where
  "afterMessage_try result t =
     (if length (messageTraces t) = 0 then (Some TypeError, t)
      else
        let r = messageTraces t ! (length (messageTraces t) - 1);
            trace = heap t ! r;
            trace1 = set_returnData (returnValue result) (set_error (exceptionError result) trace);
            trace2 = (if isCreateTrace trace1
                      then set_deployedContract (createdAddress result) trace1 else trace1);
            t1 = t\<lparr>heap := (heap t)[r := trace2]\<rparr>
        in
          (None,
           if length (messageTraces t1) > 1
           then t1\<lparr>messageTraces := butlast (messageTraces t1)\<rparr> else t1))"

definition afterMessageHandler :: "EVMResult \<Rightarrow> VMTracer \<Rightarrow> outcome" where
  "afterMessageHandler result t =
     (if \<not> shouldKeepTracing t then \<lparr>next_arg = None, reported = None, tracer = t\<rparr>
      else catch_block (afterMessage_try result t))"

subsection \<open>Event sequences\<close>

text \<open>
  An event as the VM emits it. A \<open>beforeMessage\<close> carries what the state manager answers
  to \<open>getContractCode\<close> at that moment, since the code of an address changes while the
  VM runs.
\<close>

datatype event =
    BeforeMessage "bytes \<Rightarrow> exn + bytes" Message
  | Step InterpreterStep
  | AfterMessage EVMResult

fun emit :: "'k list \<Rightarrow> event \<Rightarrow> VMTracer \<Rightarrow> outcome" where
  "emit precompiles (BeforeMessage getContractCode message) t =
     beforeMessageHandler getContractCode precompiles message t"
| "emit precompiles (Step step) t = stepHandler step t"
| "emit precompiles (AfterMessage result) t = afterMessageHandler result t"

fun run :: "'k list \<Rightarrow> event list \<Rightarrow> VMTracer \<Rightarrow> VMTracer" where
  "run precompiles [] t = t"
| "run precompiles (ev # evs) t = run precompiles evs (tracer (emit precompiles ev t))"

text \<open>The arguments given to \<open>next\<close>, one for each event.\<close>

fun acks :: "'k list \<Rightarrow> event list \<Rightarrow> VMTracer \<Rightarrow> exn option list" where
  "acks precompiles [] t = []"
| "acks precompiles (ev # evs) t =
     next_arg (emit precompiles ev t) # acks precompiles evs (tracer (emit precompiles ev t))"

text \<open>The error that the \<open>try\<close> block of the handler of an event throws, if any.\<close>

fun thrown :: "'k list \<Rightarrow> event \<Rightarrow> VMTracer \<Rightarrow> exn option" where
  "thrown precompiles (BeforeMessage getContractCode message) t =
     fst (beforeMessage_try getContractCode precompiles message t)"
| "thrown precompiles (Step step) t = fst (step_try step t)"
| "thrown precompiles (AfterMessage result) t = fst (afterMessage_try result t)"

subsection \<open>Invariants of the store\<close>

text \<open>
  A frame that can have children counts them right when \<open>numberOfSubtraces\<close> is the
  number of message traces among its \<open>steps\<close>; a precompile trace has neither field.
\<close>

fun subtraces_counted :: "MessageTrace \<Rightarrow> bool" where
  "subtraces_counted (CreateMessageTrace c ss v rd n d dc e) =
     (n = length (filter isSubTrace ss))"
| "subtraces_counted (CallMessageTrace c cd ss v rd a n d e) =
     (n = length (filter isSubTrace ss))"
| "subtraces_counted (PrecompileMessageTrace p cd v rd d e) = True"

definition counts_consistent :: "VMTracer \<Rightarrow> bool" where
  "counts_consistent t \<longleftrightarrow> list_all subtraces_counted (heap t)"

text \<open>
  Every reference that the tracer holds, on the stack or among the steps of a frame,
  is the address of an object of the store.
\<close>

fun sub_refs :: "MessageTrace \<Rightarrow> ref list" where
  "sub_refs (CreateMessageTrace c ss v rd n d dc e) = [r. SubTrace r \<leftarrow> ss]"
| "sub_refs (CallMessageTrace c cd ss v rd a n d e) = [r. SubTrace r \<leftarrow> ss]"
| "sub_refs (PrecompileMessageTrace p cd v rd d e) = []"

definition refs_below :: "nat \<Rightarrow> MessageTrace \<Rightarrow> bool" where
  "refs_below n trace \<longleftrightarrow> list_all (\<lambda>r. r < n) (sub_refs trace)"

definition refs_allocated :: "VMTracer \<Rightarrow> bool" where
  "refs_allocated t \<longleftrightarrow>
     list_all (\<lambda>r. r < length (heap t)) (messageTraces t) \<and>
     list_all (\<lambda>trace. list_all (\<lambda>r. r < length (heap t)) (sub_refs trace)) (heap t)"

subsection \<open>Well-formed event sequences\<close>

text \<open>
  The events of complete messages, properly nested: \<open>properly_nested d evs\<close> reads
  \<open>evs\<close> with \<open>d\<close> messages open and ends with none open. The depth of a message is
  the number of messages open when it starts, and a \<open>step\<close> or an \<open>afterMessage\<close>
  comes only while a message is open.
\<close>

fun properly_nested :: "nat \<Rightarrow> event list \<Rightarrow> bool" where
  "properly_nested d [] \<longleftrightarrow> d = 0"
| "properly_nested d (BeforeMessage g m # evs) \<longleftrightarrow>
     msg_depth m = d \<and> properly_nested (Suc d) evs"
| "properly_nested d (Step s # evs) \<longleftrightarrow> 0 < d \<and> properly_nested d evs"
| "properly_nested d (AfterMessage res # evs) \<longleftrightarrow> 0 < d \<and> properly_nested (d - 1) evs"

text \<open>No handler throws in its \<open>try\<close> block while the tracer goes through \<open>evs\<close>.\<close>

fun no_throw :: "'k list \<Rightarrow> event list \<Rightarrow> VMTracer \<Rightarrow> bool" where
  "no_throw ps [] t \<longleftrightarrow> True"
| "no_throw ps (ev # evs) t \<longleftrightarrow>
     thrown ps ev t = None \<and> no_throw ps evs (tracer (emit ps ev t))"

fun isAfterMessage :: "event \<Rightarrow> bool" where
  "isAfterMessage (AfterMessage res) = True"
| "isAfterMessage _ = False"

text \<open>The fields that \<open>_afterMessageHandler\<close> assigns hold what the result \<open>res\<close> gave.\<close>

definition populated_from :: "EVMResult \<Rightarrow> MessageTrace \<Rightarrow> bool" where
  "populated_from res trace \<longleftrightarrow>
     error trace = exceptionError res \<and> returnData trace = returnValue res \<and>
     (if isCreateTrace trace then deployedContract trace = createdAddress res else True)"

text \<open>A tracer that is tracing has \<open>d\<close> frames on its stack, all of them in the store.\<close>

definition open_frames :: "nat \<Rightarrow> VMTracer \<Rightarrow> bool" where
  "open_frames d t \<longleftrightarrow>
     shouldKeepTracing t \<and>
     (if d = 0 then True
      else length (messageTraces t) = d \<and>
           list_all (\<lambda>r. r < length (heap t)) (messageTraces t))"

subsection \<open>Example values\<close>

text \<open>
  Concrete events for the examples below: a state manager that knows the code of every
  address and one whose lookup fails, the nine keys of a table of precompiles, and the
  messages and results of the scenarios of the specification.
\<close>

definition code_found :: "bytes \<Rightarrow> exn + bytes" where
  "code_found a = Inr [0x60, 0x00]"

definition code_lookup_fails :: "bytes \<Rightarrow> exn + bytes" where
  "code_lookup_fails a = Inl (Rejected ''getContractCode failed'')"

definition nine_precompiles :: "string list" where
  "nine_precompiles = [''01'', ''02'', ''03'', ''04'', ''05'', ''06'', ''07'', ''08'', ''09'']"

definition call_message :: "nat \<Rightarrow> Message" where
  "call_message d =
     \<lparr>to = Some [0xAA], data = [0x01, 0x02], msg_value = 0, msg_depth = d, codeAddress = None\<rparr>"

definition precompile_message :: "nat \<Rightarrow> Message" where
  "precompile_message d =
     \<lparr>to = Some [0x00, 0x01], data = [0x03], msg_value = 0, msg_depth = d, codeAddress = None\<rparr>"

definition create_message :: "nat \<Rightarrow> Message" where
  "create_message d =
     \<lparr>to = None, data = [0x60, 0x80], msg_value = 5, msg_depth = d, codeAddress = None\<rparr>"

definition ok_result :: EVMResult where
  "ok_result = \<lparr>exceptionError = None, returnValue = [0x6F, 0x6B], createdAddress = None\<rparr>"

definition created_result :: EVMResult where
  "created_result =
     \<lparr>exceptionError = None, returnValue = [], createdAddress = Some [0xBB]\<rparr>"

definition reverted_result :: EVMResult where
  "reverted_result =
     \<lparr>exceptionError = Some (VmError ''revert''), returnValue = [0x08], createdAddress = None\<rparr>"

definition tracing :: "bool \<Rightarrow> VMTracer" where
  "tracing dontThrow = enableTracing (new_VMTracer dontThrow)"

text \<open>An error-tolerant tracer that got a \<open>step\<close> event before any message.\<close>

definition failed_tracer :: VMTracer where
  "failed_tracer = run nine_precompiles [Step \<lparr>pc = 0\<rparr>] (tracing True)"

text \<open>
  Three tracers in the middle of a message: a call that is creating a contract, a call
  that is running a precompile, and an error-tolerant tracer that stopped at a \<open>step\<close>
  event under a top-level precompile.
\<close>

definition nested_create_open :: VMTracer where
  "nested_create_open =
     run nine_precompiles
       [BeforeMessage code_found (call_message 0), BeforeMessage code_found (create_message 1)]
       (tracing False)"

definition precompile_open :: VMTracer where
  "precompile_open =
     run nine_precompiles
       [BeforeMessage code_found (call_message 0), BeforeMessage code_found (precompile_message 1)]
       (tracing False)"

definition stuck_tracer :: VMTracer where
  "stuck_tracer =
     run nine_precompiles
       [BeforeMessage code_found (precompile_message 0), Step \<lparr>pc = 0\<rparr>] (tracing True)"

text \<open>
  A call that runs two instructions around a precompile and then reverts.
\<close>

definition precompile_scenario :: "event list" where
  "precompile_scenario =
     [BeforeMessage code_found (call_message 0), Step \<lparr>pc = 0\<rparr>,
      BeforeMessage code_found (precompile_message 1), AfterMessage ok_result,
      Step \<lparr>pc = 3\<rparr>, AfterMessage reverted_result]"

text \<open>
  A top-level call of the address after the last precompile, which the tracer takes
  for a precompile.
\<close>

definition tenth_address_message :: Message where
  "tenth_address_message =
     \<lparr>to = Some [0x0A], data = [], msg_value = 0, msg_depth = 0, codeAddress = None\<rparr>"

section \<open>Properties\<close>

subsection \<open>Basic facts about the handlers\<close>

lemma catch_block_simps:
  "catch_block (None, t) = \<lparr>next_arg = None, reported = None, tracer = t\<rparr>"
  "catch_block (Some err, t) =
     (if dontThrowErrors t then
        \<lparr>next_arg = None, reported = Some err, tracer = t\<lparr>lastError := Some err\<rparr>\<rparr>
      else \<lparr>next_arg = Some err, reported = Some err, tracer = t\<rparr>)"
  by (simp_all add: catch_block_def)

lemma beforeMessage_try_flags:
  "dontThrowErrors (snd (beforeMessage_try g ps m t)) = dontThrowErrors t"
  "lastError (snd (beforeMessage_try g ps m t)) = lastError t"
  "enabled (snd (beforeMessage_try g ps m t)) = enabled t"
  by (simp_all add: beforeMessage_try_def Let_def split: sum.splits)

lemma step_try_flags:
  "dontThrowErrors (snd (step_try s t)) = dontThrowErrors t"
  "lastError (snd (step_try s t)) = lastError t"
  "enabled (snd (step_try s t)) = enabled t"
  by (simp_all add: step_try_def Let_def)

lemma afterMessage_try_flags:
  "dontThrowErrors (snd (afterMessage_try r t)) = dontThrowErrors t"
  "lastError (snd (afterMessage_try r t)) = lastError t"
  "enabled (snd (afterMessage_try r t)) = enabled t"
  by (simp_all add: afterMessage_try_def Let_def)

lemma catch_block_flags:
  "dontThrowErrors (tracer (catch_block r)) = dontThrowErrors (snd r)"
  "enabled (tracer (catch_block r)) = enabled (snd r)"
  "\<not> dontThrowErrors (snd r) \<Longrightarrow> lastError (tracer (catch_block r)) = lastError (snd r)"
  "\<not> dontThrowErrors (snd r) \<Longrightarrow> next_arg (catch_block r) = fst r"
  by (cases r; cases "fst r"; simp add: catch_block_def)+

lemma emit_flags:
  "dontThrowErrors (tracer (emit ps ev t)) = dontThrowErrors t"
  "enabled (tracer (emit ps ev t)) = enabled t"
  by (cases ev;
      simp add: beforeMessageHandler_def stepHandler_def afterMessageHandler_def
        catch_block_flags beforeMessage_try_flags step_try_flags afterMessage_try_flags)+

lemma emit_strict:
  assumes "\<not> dontThrowErrors t"
  shows "lastError (tracer (emit ps ev t)) = lastError t"
    and "next_arg (emit ps ev t) = thrown ps ev t"
  using assms
  by (cases ev;
      simp add: beforeMessageHandler_def stepHandler_def afterMessageHandler_def
        shouldKeepTracing_def catch_block_flags beforeMessage_try_flags step_try_flags
        afterMessage_try_flags)+

lemma run_flags:
  "dontThrowErrors (run ps evs t) = dontThrowErrors t"
  "enabled (run ps evs t) = enabled t"
  by (induction evs arbitrary: t) (simp_all add: emit_flags)

lemma run_strict: "\<not> dontThrowErrors t \<Longrightarrow> lastError (run ps evs t) = lastError t"
  by (induction evs arbitrary: t) (simp_all add: emit_flags emit_strict)

lemma emit_frozen:
  assumes "dontThrowErrors t" and "lastError t \<noteq> None"
  shows "emit ps ev t = \<lparr>next_arg = None, reported = None, tracer = t\<rparr>"
  using assms
  by (cases ev)
    (simp_all add: beforeMessageHandler_def stepHandler_def afterMessageHandler_def
      shouldKeepTracing_def)

lemma run_frozen:
  assumes "dontThrowErrors t" and "lastError t \<noteq> None"
  shows "run ps evs t = t" and "acks ps evs t = replicate (length evs) None"
  using assms by (induction evs) (simp_all add: emit_frozen)

lemma run_append: "run ps (evs @ evs') t = run ps evs' (run ps evs t)"
  by (induction evs arbitrary: t) simp_all

lemma failed_tracer_eq:
  "failed_tracer =
     \<lparr>messageTraces = [], enabled = True, dontThrowErrors = True, lastError = Some TypeError,
      heap = []\<rparr>"
  by (simp add: failed_tracer_def tracing_def enableTracing_def new_VMTracer_def
      stepHandler_def shouldKeepTracing_def step_try_def catch_block_def)

lemmas example_defs =
  tracing_def enableTracing_def new_VMTracer_def code_found_def code_lookup_fails_def
  nine_precompiles_def call_message_def precompile_message_def create_message_def
  ok_result_def created_result_def reverted_result_def

lemmas handler_defs =
  beforeMessageHandler_def beforeMessage_try_def new_trace_def stepHandler_def step_try_def
  afterMessageHandler_def afterMessage_try_def catch_block_def shouldKeepTracing_def
  MAX_PRECOMPILE_NUMBER_def DUMMY_RETURN_DATA_def BN_def

lemma nested_create_open_eq:
  "nested_create_open =
     \<lparr>messageTraces = [0, 1], enabled = True, dontThrowErrors = False, lastError = None,
      heap = [CallMessageTrace [0x60, 0x00] [0x01, 0x02] [SubTrace 1] 0 [] [0xAA] 1 0 None,
              CreateMessageTrace [0x60, 0x80] [] 5 [] 0 1 None None]\<rparr>"
  by (simp add: nested_create_open_def example_defs handler_defs)

lemma precompile_open_eq:
  "precompile_open =
     \<lparr>messageTraces = [0, 1], enabled = True, dontThrowErrors = False, lastError = None,
      heap = [CallMessageTrace [0x60, 0x00] [0x01, 0x02] [SubTrace 1] 0 [] [0xAA] 1 0 None,
              PrecompileMessageTrace 1 [0x03] 0 [] 1 None]\<rparr>"
  by (simp add: precompile_open_def example_defs handler_defs)

lemma stuck_tracer_eq:
  "stuck_tracer =
     \<lparr>messageTraces = [0], enabled = True, dontThrowErrors = True,
      lastError = Some (Error ''This should not happen: step event fired while a precompile was executing''),
      heap = [PrecompileMessageTrace 1 [0x03] 0 [] 0 None]\<rparr>"
  by (simp add: stuck_tracer_def example_defs handler_defs)

lemma precompile_scenario_run:
  "run nine_precompiles precompile_scenario (tracing False) =
     \<lparr>messageTraces = [0], enabled = True, dontThrowErrors = False, lastError = None,
      heap = [CallMessageTrace [0x60, 0x00] [0x01, 0x02] [EvmStep 0, SubTrace 1, EvmStep 3] 0
                [0x08] [0xAA] 1 0 (Some (VmError ''revert'')),
              PrecompileMessageTrace 1 [0x03] 0 [0x6F, 0x6B] 1 None]\<rparr>"
  by (simp add: precompile_scenario_def example_defs handler_defs)

lemma top_index:
  "xs \<noteq> [] \<Longrightarrow> xs ! (length xs - 1) = last xs"
  "xs \<noteq> [] \<Longrightarrow> xs ! (length xs - Suc 0) = last xs"
  by (simp_all add: last_conv_nth)

lemma set_fields [simp]:
  "error (set_error x tr) = x"
  "returnData (set_error x tr) = returnData tr"
  "returnData (set_returnData y tr) = y"
  "error (set_returnData y tr) = error tr"
  "isCreateTrace (set_error x tr) = isCreateTrace tr"
  "isCreateTrace (set_returnData y tr) = isCreateTrace tr"
  "isPrecompileTrace (set_error x tr) = isPrecompileTrace tr"
  "isPrecompileTrace (set_returnData y tr) = isPrecompileTrace tr"
  by (cases tr; simp)+

lemma set_deployedContract_fields [simp]:
  "isCreateTrace tr \<Longrightarrow> deployedContract (set_deployedContract z tr) = z"
  "error (set_deployedContract z tr) = error tr"
  "returnData (set_deployedContract z tr) = returnData tr"
  "isCreateTrace (set_deployedContract z tr) = isCreateTrace tr"
  "isPrecompileTrace (set_deployedContract z tr) = isPrecompileTrace tr"
  by (cases tr; simp)+

subsection \<open>The query for the top-level trace\<close>

text \<open>
  C5. \<open>getLastTopLevelMessageTrace\<close> throws if and only if the tracer is disabled or the
  list of traces is empty; otherwise it returns the first entry of the list, the root
  frame.
\<close>

theorem top_level_trace_query:
  "((\<exists>err. getLastTopLevelMessageTrace t = Inl err) \<longleftrightarrow>
      (\<not> enabled t \<or> messageTraces t = [])) \<and>
   (enabled t \<and> messageTraces t \<noteq> [] \<longrightarrow>
      getLastTopLevelMessageTrace t = Inr (hd (messageTraces t)))"
  by (cases "messageTraces t") (simp_all add: getLastTopLevelMessageTrace_def)

theorem top_level_trace_query_witness:
  "enabled (run nine_precompiles [BeforeMessage code_found (call_message 0)] (tracing False)) \<and>
   messageTraces (run nine_precompiles [BeforeMessage code_found (call_message 0)] (tracing False))
     \<noteq> [] \<and>
   getLastTopLevelMessageTrace
     (run nine_precompiles [BeforeMessage code_found (call_message 0)] (tracing False)) = Inr 0"
  using top_level_trace_query
    [of "run nine_precompiles [BeforeMessage code_found (call_message 0)] (tracing False)"]
  by (simp add: tracing_def enableTracing_def new_VMTracer_def beforeMessageHandler_def
      shouldKeepTracing_def beforeMessage_try_def new_trace_def call_message_def BN_def
      MAX_PRECOMPILE_NUMBER_def nine_precompiles_def code_found_def catch_block_def)

subsection \<open>Error-tolerant mode after an error\<close>

text \<open>
  C2. In error-tolerant mode, once the last-error slot holds an error, the handlers of
  \<open>beforeMessage\<close>, \<open>step\<close> and \<open>afterMessage\<close> call \<open>next()\<close> with no error, report
  nothing and leave the tracer as it is: the frame stack, the trace objects and the
  last-error slot. This stays so over any sequence of events; \<open>clearLastError\<close> ends it.
\<close>

theorem frozen_after_error:
  assumes "dontThrowErrors t" and "lastError t \<noteq> None"
  shows "beforeMessageHandler g ps m t = \<lparr>next_arg = None, reported = None, tracer = t\<rparr> \<and>
         stepHandler s t = \<lparr>next_arg = None, reported = None, tracer = t\<rparr> \<and>
         afterMessageHandler r t = \<lparr>next_arg = None, reported = None, tracer = t\<rparr> \<and>
         run ps evs t = t \<and>
         acks ps evs t = replicate (length evs) None \<and>
         shouldKeepTracing (clearLastError t)"
  using assms run_frozen [of t ps evs]
  by (simp add: beforeMessageHandler_def stepHandler_def afterMessageHandler_def
      shouldKeepTracing_def clearLastError_def)

theorem frozen_after_error_witness:
  "dontThrowErrors failed_tracer \<and> lastError failed_tracer \<noteq> None \<and>
   beforeMessageHandler code_found nine_precompiles (call_message 0) failed_tracer =
     \<lparr>next_arg = None, reported = None, tracer = failed_tracer\<rparr> \<and>
   stepHandler \<lparr>pc = 3\<rparr> failed_tracer =
     \<lparr>next_arg = None, reported = None, tracer = failed_tracer\<rparr> \<and>
   afterMessageHandler ok_result failed_tracer =
     \<lparr>next_arg = None, reported = None, tracer = failed_tracer\<rparr> \<and>
   run nine_precompiles [BeforeMessage code_found (call_message 0), AfterMessage ok_result]
     failed_tracer = failed_tracer \<and>
   acks nine_precompiles [BeforeMessage code_found (call_message 0), AfterMessage ok_result]
     failed_tracer = [None, None] \<and>
   shouldKeepTracing (clearLastError failed_tracer)"
proof -
  have h1: "dontThrowErrors failed_tracer" and h2: "lastError failed_tracer \<noteq> None"
    by (simp_all add: failed_tracer_eq)
  show ?thesis
    using h1 h2
      frozen_after_error [OF h1 h2, of code_found nine_precompiles "call_message 0"
        "\<lparr>pc = 3\<rparr>" ok_result
        "[BeforeMessage code_found (call_message 0), AfterMessage ok_result]"]
    by (simp add: numeral_2_eq_2)
qed

subsection \<open>Strict mode\<close>

text \<open>
  C10. A tracer constructed in strict mode (\<open>dontThrowErrors\<close> false) never writes the
  last-error slot: \<open>getLastError\<close> is \<open>undefined\<close> after every sequence of events, and
  what the \<open>try\<close> block of a handler throws is exactly what the handler gives to
  \<open>next\<close>.
\<close>

theorem strict_mode_keeps_no_error:
  "getLastError (run ps evs (new_VMTracer False)) = None \<and>
   getLastError (run ps evs (enableTracing (new_VMTracer False))) = None \<and>
   (\<forall>t ev. \<not> dontThrowErrors t \<longrightarrow>
      lastError (tracer (emit ps ev t)) = lastError t \<and>
      next_arg (emit ps ev t) = thrown ps ev t)"
  by (simp add: getLastError_def run_strict emit_strict new_VMTracer_def enableTracing_def)

theorem strict_mode_keeps_no_error_witness:
  "\<not> dontThrowErrors (tracing False) \<and>
   getLastError (run nine_precompiles [Step \<lparr>pc = 0\<rparr>] (new_VMTracer False)) = None \<and>
   getLastError (run nine_precompiles [Step \<lparr>pc = 0\<rparr>] (enableTracing (new_VMTracer False)))
     = None \<and>
   lastError (tracer (emit nine_precompiles (Step \<lparr>pc = 0\<rparr>) (tracing False))) = None \<and>
   next_arg (emit nine_precompiles (Step \<lparr>pc = 0\<rparr>) (tracing False)) = Some TypeError"
proof -
  have h: "\<not> dontThrowErrors (tracing False)"
    by (simp add: tracing_def enableTracing_def new_VMTracer_def)
  have l: "lastError (tracing False) = None"
    by (simp add: tracing_def enableTracing_def new_VMTracer_def)
  have th: "thrown nine_precompiles (Step \<lparr>pc = 0\<rparr>) (tracing False) = Some TypeError"
    by (simp add: step_try_def tracing_def enableTracing_def new_VMTracer_def)
  note main = strict_mode_keeps_no_error [of nine_precompiles "[Step \<lparr>pc = 0\<rparr>]"]
  from main have
    "\<not> dontThrowErrors (tracing False) \<longrightarrow>
       lastError (tracer (emit nine_precompiles (Step \<lparr>pc = 0\<rparr>) (tracing False)))
         = lastError (tracing False) \<and>
       next_arg (emit nine_precompiles (Step \<lparr>pc = 0\<rparr>) (tracing False))
         = thrown nine_precompiles (Step \<lparr>pc = 0\<rparr>) (tracing False)"
    by blast
  with h l th have
    "lastError (tracer (emit nine_precompiles (Step \<lparr>pc = 0\<rparr>) (tracing False))) = None \<and>
     next_arg (emit nine_precompiles (Step \<lparr>pc = 0\<rparr>) (tracing False)) = Some TypeError"
    by simp
  with main h show ?thesis by blast
qed

subsection \<open>The end of a message\<close>

text \<open>
  C4. When \<open>afterMessage\<close> is processed with a frame on the stack, the handler sets
  \<open>error\<close> and \<open>returnData\<close> of the innermost frame from the result, and
  \<open>deployedContract\<close> too if the frame is a create trace; no other object of the store
  changes. It pops the frame if and only if the stack holds more than one entry, so the
  root stays first in the list and the query for the top-level trace answers as before.
  The frame on top of the stack is an object of the store, as it is in every state the
  tracer reaches.
\<close>

theorem after_message_closes_frame:
  assumes keep: "shouldKeepTracing t"
    and open_frame: "messageTraces t \<noteq> []"
    and allocated: "last (messageTraces t) < length (heap t)"
  shows "next_arg (afterMessageHandler res t) = None \<and>
         reported (afterMessageHandler res t) = None \<and>
         error (heap (tracer (afterMessageHandler res t)) ! last (messageTraces t))
           = exceptionError res \<and>
         returnData (heap (tracer (afterMessageHandler res t)) ! last (messageTraces t))
           = returnValue res \<and>
         (isCreateTrace (heap t ! last (messageTraces t)) \<longrightarrow>
            deployedContract (heap (tracer (afterMessageHandler res t)) ! last (messageTraces t))
              = createdAddress res) \<and>
         heap (tracer (afterMessageHandler res t))
           = (heap t)[last (messageTraces t) :=
                heap (tracer (afterMessageHandler res t)) ! last (messageTraces t)] \<and>
         messageTraces (tracer (afterMessageHandler res t))
           = (if length (messageTraces t) > 1 then butlast (messageTraces t)
              else messageTraces t) \<and>
         messageTraces (tracer (afterMessageHandler res t)) \<noteq> [] \<and>
         hd (messageTraces (tracer (afterMessageHandler res t))) = hd (messageTraces t) \<and>
         getLastTopLevelMessageTrace (tracer (afterMessageHandler res t))
           = getLastTopLevelMessageTrace t"
proof (cases "messageTraces t" rule: rev_cases)
  case Nil
  with open_frame show ?thesis by simp
next
  case (snoc ys y)
  with keep allocated show ?thesis
    by (cases ys)
      (simp_all add: afterMessageHandler_def afterMessage_try_def Let_def catch_block_simps
        getLastTopLevelMessageTrace_def nth_append)
qed

theorem after_message_closes_frame_witness:
  "shouldKeepTracing nested_create_open \<and>
   messageTraces nested_create_open \<noteq> [] \<and>
   last (messageTraces nested_create_open) < length (heap nested_create_open) \<and>
   isCreateTrace (heap nested_create_open ! last (messageTraces nested_create_open)) \<and>
   next_arg (afterMessageHandler created_result nested_create_open) = None \<and>
   heap (tracer (afterMessageHandler created_result nested_create_open)) ! 1
     = CreateMessageTrace [0x60, 0x80] [] 5 [] 0 1 (Some [0xBB]) None \<and>
   messageTraces (tracer (afterMessageHandler created_result nested_create_open)) = [0] \<and>
   getLastTopLevelMessageTrace (tracer (afterMessageHandler created_result nested_create_open))
     = Inr 0"
proof -
  have h1: "shouldKeepTracing nested_create_open"
    and h2: "messageTraces nested_create_open \<noteq> []"
    and h3: "last (messageTraces nested_create_open) < length (heap nested_create_open)"
    by (simp_all add: nested_create_open_eq shouldKeepTracing_def)
  from after_message_closes_frame [OF h1 h2 h3, where res = created_result] h1 h2 h3
  show ?thesis
    by (simp add: nested_create_open_eq created_result_def handler_defs
        getLastTopLevelMessageTrace_def)
qed


subsection \<open>Events with no open frame\<close>

text \<open>
  C9, as stated, fails in error-tolerant mode: with no error recorded yet, a \<open>step\<close> or
  \<open>afterMessage\<close> event on an empty stack makes the handler store the \<open>TypeError\<close> in
  the last-error slot and call \<open>next()\<close> with no argument, the acknowledgement that a
  good event gets.
\<close>

theorem tolerant_empty_stack_counterexample:
  "messageTraces (tracing True) = [] \<and> shouldKeepTracing (tracing True) \<and>
   next_arg (stepHandler \<lparr>pc = 0\<rparr> (tracing True)) = None \<and>
   next_arg (afterMessageHandler ok_result (tracing True)) = None \<and>
   lastError (tracer (stepHandler \<lparr>pc = 0\<rparr> (tracing True))) = Some TypeError \<and>
   next_arg (afterMessageHandler ok_result nested_create_open) = None"
  by (simp add: nested_create_open_eq example_defs handler_defs)

text \<open>
  C9, amended. A \<open>step\<close> or \<open>afterMessage\<close> event that is processed while the stack is
  empty throws a \<open>TypeError\<close> in the \<open>try\<close> block, from looking into the \<open>undefined\<close>
  innermost frame; it is not one of the errors with a diagnostic message that the tracer
  constructs. In strict mode the handler gives the error to \<open>next\<close>; in error-tolerant
  mode it stores the error in the last-error slot and calls \<open>next()\<close> with no error.
  In both modes it reports the error and changes no frame.
\<close>

theorem empty_stack_type_error:
  assumes no_frame: "messageTraces t = []" and keep: "shouldKeepTracing t"
  shows "step_try s t = (Some TypeError, t) \<and>
         afterMessage_try res t = (Some TypeError, t) \<and>
         stepHandler s t =
           (if dontThrowErrors t
            then \<lparr>next_arg = None, reported = Some TypeError,
                  tracer = t\<lparr>lastError := Some TypeError\<rparr>\<rparr>
            else \<lparr>next_arg = Some TypeError, reported = Some TypeError, tracer = t\<rparr>) \<and>
         afterMessageHandler res t = stepHandler s t \<and>
         stepHandler s t \<noteq> \<lparr>next_arg = None, reported = None, tracer = t\<rparr> \<and>
         (\<forall>msg. TypeError \<noteq> Error msg)"
  using assms
  by (simp add: stepHandler_def afterMessageHandler_def step_try_def afterMessage_try_def
      catch_block_simps)

theorem empty_stack_type_error_witness:
  "messageTraces (tracing False) = [] \<and> shouldKeepTracing (tracing False) \<and>
   messageTraces (tracing True) = [] \<and> shouldKeepTracing (tracing True) \<and>
   stepHandler \<lparr>pc = 0\<rparr> (tracing False) =
     \<lparr>next_arg = Some TypeError, reported = Some TypeError, tracer = tracing False\<rparr> \<and>
   afterMessageHandler ok_result (tracing False) =
     \<lparr>next_arg = Some TypeError, reported = Some TypeError, tracer = tracing False\<rparr> \<and>
   stepHandler \<lparr>pc = 0\<rparr> (tracing True) =
     \<lparr>next_arg = None, reported = Some TypeError,
      tracer = (tracing True)\<lparr>lastError := Some TypeError\<rparr>\<rparr>"
proof -
  have s: "messageTraces (tracing False) = []" "shouldKeepTracing (tracing False)"
    and e: "messageTraces (tracing True) = []" "shouldKeepTracing (tracing True)"
    by (simp_all add: example_defs shouldKeepTracing_def)
  have f: "\<not> dontThrowErrors (tracing False)" and g: "dontThrowErrors (tracing True)"
    by (simp_all add: example_defs)
  from empty_stack_type_error [OF s, where s = "\<lparr>pc = 0\<rparr>" and res = ok_result]
    empty_stack_type_error [OF e, where s = "\<lparr>pc = 0\<rparr>" and res = ok_result] s e f g
  show ?thesis by simp
qed


subsection \<open>The start of a top-level message\<close>

text \<open>
  C7, as stated, fails: while error-tolerant tracing is stopped by an earlier error, a
  \<open>beforeMessage\<close> of depth 0 returns before the list of traces is emptied, and the
  previous tree stays.
\<close>

theorem depth_zero_while_frozen_counterexample:
  "msg_depth (call_message 0) = 0 \<and>
   messageTraces stuck_tracer = [0] \<and>
   messageTraces (tracer (beforeMessageHandler code_found nine_precompiles (call_message 0)
     stuck_tracer)) = [0] \<and>
   heap (tracer (beforeMessageHandler code_found nine_precompiles (call_message 0)
     stuck_tracer)) = [PrecompileMessageTrace 1 [0x03] 0 [] 0 None] \<and>
   next_arg (beforeMessageHandler code_found nine_precompiles (call_message 0) stuck_tracer)
     = None"
  by (simp add: stuck_tracer_eq call_message_def beforeMessageHandler_def shouldKeepTracing_def)


text \<open>
  C7, amended. A \<open>beforeMessage\<close> of depth 0 that is processed while tracing is not
  stopped empties the list of traces before the new frame is made: afterwards the list
  holds the new frame alone, at a fresh address and attached to no older frame, or
  nothing if the code lookup failed.
\<close>

theorem top_level_message_starts_fresh:
  assumes keep: "shouldKeepTracing t" and top: "msg_depth m = 0"
  shows "(case new_trace g ps m of
            Inl err \<Rightarrow>
              thrown ps (BeforeMessage g m) t = Some err \<and>
              messageTraces (tracer (beforeMessageHandler g ps m t)) = [] \<and>
              heap (tracer (beforeMessageHandler g ps m t)) = heap t
          | Inr trace \<Rightarrow>
              thrown ps (BeforeMessage g m) t = None \<and>
              messageTraces (tracer (beforeMessageHandler g ps m t)) = [length (heap t)] \<and>
              heap (tracer (beforeMessageHandler g ps m t)) = heap t @ [trace]) \<and>
         length (messageTraces (tracer (beforeMessageHandler g ps m t))) \<le> 1"
  using assms
  by (cases "dontThrowErrors t")
    (simp_all add: beforeMessageHandler_def beforeMessage_try_def Let_def catch_block_simps
      split: sum.splits)

theorem top_level_message_starts_fresh_witness:
  "shouldKeepTracing nested_create_open \<and> msg_depth (call_message 0) = 0 \<and>
   messageTraces nested_create_open = [0, 1] \<and>
   messageTraces (tracer (beforeMessageHandler code_found nine_precompiles (call_message 0)
     nested_create_open)) = [2] \<and>
   heap (tracer (beforeMessageHandler code_found nine_precompiles (call_message 0)
     nested_create_open))
     = heap nested_create_open @ [CallMessageTrace [0x60, 0x00] [0x01, 0x02] [] 0 [] [0xAA] 0 0 None]"
proof -
  have h1: "shouldKeepTracing nested_create_open" and h2: "msg_depth (call_message 0) = 0"
    by (simp_all add: nested_create_open_eq shouldKeepTracing_def call_message_def)
  have n: "new_trace code_found nine_precompiles (call_message 0)
             = Inr (CallMessageTrace [0x60, 0x00] [0x01, 0x02] [] 0 [] [0xAA] 0 0 None)"
    by (simp add: example_defs handler_defs)
  from top_level_message_starts_fresh [OF h1 h2, where g = code_found and ps = nine_precompiles] n h1 h2
  show ?thesis by (simp add: nested_create_open_eq)
qed


subsection \<open>Precompiles are leaves\<close>

text \<open>
  C8, as stated, fails: for a nested call message the handler awaits the code of the
  target before it looks at the parent frame, so a failing lookup is what it throws, not
  the diagnostic error.
\<close>

theorem lookup_failure_under_precompile_counterexample:
  "shouldKeepTracing precompile_open \<and>
   messageTraces precompile_open = [0, 1] \<and>
   isPrecompileTrace (heap precompile_open ! 1) \<and>
   msg_depth (call_message 2) = 2 \<and>
   beforeMessage_try code_lookup_fails nine_precompiles (call_message 2) precompile_open
     = (Some (Rejected ''getContractCode failed''), precompile_open) \<and>
   next_arg (beforeMessageHandler code_lookup_fails nine_precompiles (call_message 2)
     precompile_open) = Some (Rejected ''getContractCode failed'')"
  by (simp add: precompile_open_eq example_defs handler_defs)


text \<open>
  C8, amended. While the innermost open frame is a precompile trace, a \<open>step\<close> event
  that is processed throws the diagnostic error of \<open>_stepHandler\<close>, and a nested
  \<open>beforeMessage\<close> (depth not 0) throws the diagnostic error of
  \<open>_beforeMessageHandler\<close> unless the message is a call whose code lookup fails, which
  throws the error of the lookup. In every case the store and the stack are as before.
\<close>

theorem precompile_is_leaf:
  assumes keep: "shouldKeepTracing t"
    and open_frame: "messageTraces t \<noteq> []"
    and leaf: "isPrecompileTrace (heap t ! last (messageTraces t))"
  shows "step_try s t =
           (Some (Error ''This should not happen: step event fired while a precompile was executing''), t) \<and>
         heap (tracer (stepHandler s t)) = heap t \<and>
         messageTraces (tracer (stepHandler s t)) = messageTraces t \<and>
         (msg_depth m \<noteq> 0 \<longrightarrow>
            beforeMessage_try g ps m t =
              (Some (case new_trace g ps m of
                       Inl err \<Rightarrow> err
                     | Inr trace \<Rightarrow> Error ''This should not happen: message execution started while a precompile was executing''),
               t) \<and>
            heap (tracer (beforeMessageHandler g ps m t)) = heap t \<and>
            messageTraces (tracer (beforeMessageHandler g ps m t)) = messageTraces t)"
  using assms
  by (cases "dontThrowErrors t")
    (simp_all add: stepHandler_def step_try_def beforeMessageHandler_def beforeMessage_try_def
      Let_def catch_block_simps top_index split: sum.splits)


theorem precompile_is_leaf_witness:
  "shouldKeepTracing precompile_open \<and>
   messageTraces precompile_open \<noteq> [] \<and>
   isPrecompileTrace (heap precompile_open ! last (messageTraces precompile_open)) \<and>
   msg_depth (create_message 2) \<noteq> 0 \<and>
   step_try \<lparr>pc = 7\<rparr> precompile_open =
     (Some (Error ''This should not happen: step event fired while a precompile was executing''),
      precompile_open) \<and>
   beforeMessage_try code_found nine_precompiles (create_message 2) precompile_open =
     (Some (Error ''This should not happen: message execution started while a precompile was executing''),
      precompile_open) \<and>
   heap (tracer (beforeMessageHandler code_found nine_precompiles (create_message 2)
     precompile_open)) = heap precompile_open"
proof -
  have h1: "shouldKeepTracing precompile_open"
    and h2: "messageTraces precompile_open \<noteq> []"
    and h3: "isPrecompileTrace (heap precompile_open ! last (messageTraces precompile_open))"
    and h4: "msg_depth (create_message 2) \<noteq> 0"
    by (simp_all add: precompile_open_eq shouldKeepTracing_def create_message_def)
  have n: "new_trace code_found nine_precompiles (create_message 2)
             = Inr (CreateMessageTrace [0x60, 0x80] [] 5 [] 0 2 None None)"
    by (simp add: example_defs handler_defs)
  from precompile_is_leaf [OF h1 h2 h3, where s = "\<lparr>pc = 7\<rparr>" and m = "create_message 2"
      and g = code_found and ps = nine_precompiles] n h1 h2 h3 h4
  show ?thesis by simp
qed


subsection \<open>Classification of a message with a target\<close>

lemma new_trace_kind:
  assumes "to m = Some target" and "new_trace g ps m = Inr trace"
  shows "isPrecompileTrace trace \<longleftrightarrow> 1 \<le> BN target \<and> BN target \<le> length ps + 1"
    and "isPrecompileTrace trace \<Longrightarrow> precompile trace = BN target"
  using assms
  by (auto simp add: new_trace_def Let_def MAX_PRECOMPILE_NUMBER_def split: sum.splits if_splits)

lemma new_trace_in_range:
  assumes "to m = Some target" and "1 \<le> BN target" and "BN target \<le> length ps + 1"
  shows "new_trace g ps m =
           Inr (PrecompileMessageTrace (BN target) (data m) (msg_value m) DUMMY_RETURN_DATA
                  (msg_depth m) None)"
  using assms by (simp add: new_trace_def Let_def MAX_PRECOMPILE_NUMBER_def)

lemma created_frame:
  assumes "length (heap t) < length (heap (tracer (beforeMessageHandler g ps m t)))"
  shows "new_trace g ps m = Inr (heap (tracer (beforeMessageHandler g ps m t)) ! length (heap t)) \<and>
         last (messageTraces (tracer (beforeMessageHandler g ps m t))) = length (heap t) \<and>
         length (heap (tracer (beforeMessageHandler g ps m t))) = length (heap t) + 1"
  using assms
  by (cases "new_trace g ps m")
    (simp_all add: beforeMessageHandler_def beforeMessage_try_def Let_def catch_block_simps
      nth_append split: if_splits)

text \<open>
  C3. A message with a target address is classified as a precompile, that is, the trace
  object that \<open>_beforeMessageHandler\<close> builds for it is a precompile trace, if and
  only if the target, read as a big-endian unsigned integer, is at least 1 and at most
  the number of keys of \<open>precompiles\<close> plus 1; the identifier of the precompile trace is
  that integer. Whenever the handler adds a frame to the store, the frame is that
  object.
\<close>

theorem precompile_classification:
  assumes target: "to m = Some target"
  shows "((\<exists>trace. new_trace g ps m = Inr trace \<and> isPrecompileTrace trace)
            \<longleftrightarrow> 1 \<le> BN target \<and> BN target \<le> length ps + 1) \<and>
         (\<forall>trace. new_trace g ps m = Inr trace \<and> isPrecompileTrace trace
            \<longrightarrow> precompile trace = BN target) \<and>
         (length (heap t) < length (heap (tracer (beforeMessageHandler g ps m t))) \<longrightarrow>
            last (messageTraces (tracer (beforeMessageHandler g ps m t))) = length (heap t) \<and>
            (isPrecompileTrace (heap (tracer (beforeMessageHandler g ps m t)) ! length (heap t))
               \<longleftrightarrow> 1 \<le> BN target \<and> BN target \<le> length ps + 1) \<and>
            (isPrecompileTrace (heap (tracer (beforeMessageHandler g ps m t)) ! length (heap t))
               \<longrightarrow> precompile (heap (tracer (beforeMessageHandler g ps m t)) ! length (heap t))
                     = BN target))"
proof (intro conjI impI allI)
  show "(\<exists>trace. new_trace g ps m = Inr trace \<and> isPrecompileTrace trace)
          \<longleftrightarrow> 1 \<le> BN target \<and> BN target \<le> length ps + 1"
    using new_trace_kind(1) [OF target] new_trace_in_range [OF target, of ps g]
    by auto
next
  fix trace
  assume "new_trace g ps m = Inr trace \<and> isPrecompileTrace trace"
  then show "precompile trace = BN target"
    using new_trace_kind(2) [OF target] by blast
next
  assume created: "length (heap t) < length (heap (tracer (beforeMessageHandler g ps m t)))"
  note fr = created_frame [OF created]
  from fr show "last (messageTraces (tracer (beforeMessageHandler g ps m t))) = length (heap t)"
    by simp
  from fr new_trace_kind(1) [OF target] show
    "isPrecompileTrace (heap (tracer (beforeMessageHandler g ps m t)) ! length (heap t))
       \<longleftrightarrow> 1 \<le> BN target \<and> BN target \<le> length ps + 1"
    by blast
  assume "isPrecompileTrace (heap (tracer (beforeMessageHandler g ps m t)) ! length (heap t))"
  with fr new_trace_kind(2) [OF target] show
    "precompile (heap (tracer (beforeMessageHandler g ps m t)) ! length (heap t)) = BN target"
    by blast
qed

theorem precompile_classification_witness:
  "to (precompile_message 0) = Some [0x00, 0x01] \<and>
   BN [0x00, 0x01] = 1 \<and> length nine_precompiles + 1 = 10 \<and>
   new_trace code_found nine_precompiles (precompile_message 0)
     = Inr (PrecompileMessageTrace 1 [0x03] 0 [] 0 None) \<and>
   length (heap (tracing False))
     < length (heap (tracer (beforeMessageHandler code_found nine_precompiles
         (precompile_message 0) (tracing False)))) \<and>
   isPrecompileTrace (heap (tracer (beforeMessageHandler code_found nine_precompiles
     (precompile_message 0) (tracing False))) ! 0) \<and>
   precompile (heap (tracer (beforeMessageHandler code_found nine_precompiles
     (precompile_message 0) (tracing False))) ! 0) = 1"
proof -
  have h1: "to (precompile_message 0) = Some [0x00, 0x01]"
    by (simp add: precompile_message_def)
  have h2: "length (heap (tracing False))
     < length (heap (tracer (beforeMessageHandler code_found nine_precompiles
         (precompile_message 0) (tracing False))))"
    by (simp add: example_defs handler_defs)
  have b: "BN [0x00, 0x01] = 1" "length nine_precompiles + 1 = 10" "heap (tracing False) = []"
    by (simp_all add: BN_def example_defs)
  have n: "new_trace code_found nine_precompiles (precompile_message 0)
     = Inr (PrecompileMessageTrace 1 [0x03] 0 [] 0 None)"
    by (simp add: example_defs handler_defs)
  from precompile_classification [OF h1, where g = code_found and ps = nine_precompiles
      and t = "tracing False"] h1 h2 b n
  show ?thesis by simp
qed

subsection \<open>The count of subtraces\<close>

lemma list_all_update:
  "list_all P xs \<Longrightarrow> (i < length xs \<Longrightarrow> P v) \<Longrightarrow> list_all P (xs[i := v])"
proof (cases "i < length xs")
  case True
  assume "list_all P xs" and "i < length xs \<Longrightarrow> P v"
  with True show ?thesis
    by (auto simp add: list_all_iff dest: subsetD [OF set_update_subset_insert])
next
  case False
  assume "list_all P xs"
  with False show ?thesis by (simp add: list_update_beyond)
qed

lemma list_all_nth: "list_all P xs \<Longrightarrow> i < length xs \<Longrightarrow> P (xs ! i)"
  by (simp add: list_all_length)

lemma subtraces_counted_updates:
  "subtraces_counted (set_error x tr) = subtraces_counted tr"
  "subtraces_counted (set_returnData y tr) = subtraces_counted tr"
  "subtraces_counted (set_deployedContract z tr) = subtraces_counted tr"
  "subtraces_counted (steps_push (EvmStep k) tr) = subtraces_counted tr"
  "subtraces_counted tr \<Longrightarrow> subtraces_counted (inc_numberOfSubtraces (steps_push (SubTrace r) tr))"
  by (cases tr; simp)+

lemma new_trace_counted: "new_trace g ps m = Inr trace \<Longrightarrow> subtraces_counted trace"
  by (auto simp add: new_trace_def Let_def split: option.splits if_splits sum.splits)

lemma new_trace_sub_refs: "new_trace g ps m = Inr trace \<Longrightarrow> sub_refs trace = []"
  by (auto simp add: new_trace_def Let_def split: option.splits if_splits sum.splits)

lemma catch_block_heap:
  "heap (tracer (catch_block r)) = heap (snd r)"
  "messageTraces (tracer (catch_block r)) = messageTraces (snd r)"
  by (cases r; cases "fst r"; simp add: catch_block_def)+

lemma beforeMessage_try_counts:
  assumes "list_all subtraces_counted (heap t)"
  shows "list_all subtraces_counted (heap (snd (beforeMessage_try g ps m t)))"
  using assms
  by (auto simp add: beforeMessage_try_def Let_def new_trace_counted subtraces_counted_updates
      list_all_nth intro!: list_all_update split: sum.splits)

lemma step_try_counts:
  assumes "list_all subtraces_counted (heap t)"
  shows "list_all subtraces_counted (heap (snd (step_try s t)))"
  using assms
  by (auto simp add: step_try_def Let_def subtraces_counted_updates list_all_nth
      intro!: list_all_update)

lemma afterMessage_try_counts:
  assumes "list_all subtraces_counted (heap t)"
  shows "list_all subtraces_counted (heap (snd (afterMessage_try r t)))"
  using assms
  by (auto simp add: afterMessage_try_def Let_def subtraces_counted_updates list_all_nth
      intro!: list_all_update)

lemma emit_counts: "counts_consistent t \<Longrightarrow> counts_consistent (tracer (emit ps ev t))"
  by (cases ev)
    (simp_all add: counts_consistent_def beforeMessageHandler_def stepHandler_def
      afterMessageHandler_def catch_block_heap beforeMessage_try_counts step_try_counts
      afterMessage_try_counts)

lemma run_counts: "counts_consistent t \<Longrightarrow> counts_consistent (run ps evs t)"
  by (induction evs arbitrary: t) (simp_all add: emit_counts)

lemma sub_refs_updates:
  "sub_refs (set_error x tr) = sub_refs tr"
  "sub_refs (set_returnData y tr) = sub_refs tr"
  "sub_refs (set_deployedContract z tr) = sub_refs tr"
  "sub_refs (steps_push (EvmStep k) tr) = sub_refs tr"
  "set (sub_refs (inc_numberOfSubtraces (steps_push (SubTrace r) tr))) \<subseteq> insert r (set (sub_refs tr))"
  by (cases tr; auto)+

lemma refs_below_mono: "refs_below n tr \<Longrightarrow> n \<le> n' \<Longrightarrow> refs_below n' tr"
  by (auto simp add: refs_below_def list_all_iff)

lemma refs_below_updates:
  "refs_below n (set_error x tr) = refs_below n tr"
  "refs_below n (set_returnData y tr) = refs_below n tr"
  "refs_below n (set_deployedContract z tr) = refs_below n tr"
  "refs_below n (steps_push (EvmStep k) tr) = refs_below n tr"
  by (simp_all add: refs_below_def sub_refs_updates)

lemma refs_below_attach:
  "refs_below n tr \<Longrightarrow> r < n \<Longrightarrow>
     refs_below n (inc_numberOfSubtraces (steps_push (SubTrace r) tr))"
  by (cases tr) (simp_all add: refs_below_def)

lemma refs_allocated_alt:
  "refs_allocated t \<longleftrightarrow>
     list_all (\<lambda>r. r < length (heap t)) (messageTraces t) \<and>
     list_all (refs_below (length (heap t))) (heap t)"
  by (simp add: refs_allocated_def refs_below_def [abs_def])

lemma list_all_mono_below:
  "list_all (refs_below n) xs \<Longrightarrow> n \<le> n' \<Longrightarrow> list_all (refs_below n') xs"
  by (auto simp add: list_all_iff intro: refs_below_mono)

lemma list_all_less_mono:
  "list_all (\<lambda>r. r < n) xs \<Longrightarrow> n \<le> n' \<Longrightarrow> list_all (\<lambda>r::nat. r < n') xs"
  by (auto simp add: list_all_iff)

lemma beforeMessage_try_refs:
  assumes "refs_allocated t"
  shows "refs_allocated (snd (beforeMessage_try g ps m t))"
proof (cases "new_trace g ps m")
  case (Inl err)
  with assms show ?thesis
    by (simp add: beforeMessage_try_def Let_def refs_allocated_alt)
next
  case (Inr trace)
  define t1 where "t1 = (if msg_depth m = 0 then t\<lparr>messageTraces := []\<rparr> else t)"
  define n where "n = length (heap t1)"
  from assms have a1: "list_all (\<lambda>r. r < n) (messageTraces t1)"
    and a2: "list_all (refs_below n) (heap t1)"
    by (simp_all add: t1_def n_def refs_allocated_alt)
  have new: "refs_below (Suc n) trace"
    using new_trace_sub_refs [OF Inr] by (simp add: refs_below_def)
  have b1: "list_all (\<lambda>r. r < Suc n) (messageTraces t1)"
    using a1 by (rule list_all_less_mono) simp
  have b2: "list_all (refs_below (Suc n)) (heap t1)"
    using a2 by (rule list_all_mono_below) simp
  have upd: "list_all (refs_below (Suc n))
      ((heap t1)[p := inc_numberOfSubtraces (steps_push (SubTrace n) (heap t1 ! p))])" for p
  proof (rule list_all_update [OF b2])
    assume "p < length (heap t1)"
    then have "refs_below (Suc n) (heap t1 ! p)" by (rule list_all_nth [OF b2])
    then show "refs_below (Suc n) (inc_numberOfSubtraces (steps_push (SubTrace n) (heap t1 ! p)))"
      by (rule refs_below_attach) simp
  qed
  show ?thesis
    using Inr a1 a2 b1 b2 new upd
    by (simp add: beforeMessage_try_def Let_def refs_allocated_alt t1_def [symmetric]
        n_def [symmetric])
qed

lemma step_try_refs:
  assumes "refs_allocated t"
  shows "refs_allocated (snd (step_try s t))"
proof -
  from assms have a1: "list_all (\<lambda>r. r < length (heap t)) (messageTraces t)"
    and a2: "list_all (refs_below (length (heap t))) (heap t)"
    by (simp_all add: refs_allocated_alt)
  have "list_all (refs_below (length (heap t)))
      ((heap t)[p := steps_push (EvmStep k) (heap t ! p)])" for p k
    by (rule list_all_update [OF a2]) (simp add: refs_below_updates list_all_nth [OF a2])
  with a1 a2 show ?thesis
    by (simp add: step_try_def Let_def refs_allocated_alt)
qed

lemma list_all_butlast: "list_all P xs \<Longrightarrow> list_all P (butlast xs)"
  by (auto simp add: list_all_iff dest: in_set_butlastD)

lemma afterMessage_try_refs:
  assumes "refs_allocated t"
  shows "refs_allocated (snd (afterMessage_try res t))"
proof -
  from assms have a1: "list_all (\<lambda>r. r < length (heap t)) (messageTraces t)"
    and a2: "list_all (refs_below (length (heap t))) (heap t)"
    by (simp_all add: refs_allocated_alt)
  have "list_all (refs_below (length (heap t)))
      ((heap t)[p := set_deployedContract z (set_returnData y (set_error x (heap t ! p)))])"
    and "list_all (refs_below (length (heap t)))
      ((heap t)[p := set_returnData y (set_error x (heap t ! p))])" for p x y z
    by (rule list_all_update [OF a2], simp add: refs_below_updates list_all_nth [OF a2])+
  with a1 a2 list_all_butlast [OF a1] show ?thesis
    by (simp add: afterMessage_try_def Let_def refs_allocated_alt)
qed

lemma catch_block_refs: "refs_allocated (tracer (catch_block r)) = refs_allocated (snd r)"
  by (simp add: refs_allocated_def catch_block_heap)

lemma emit_refs: "refs_allocated t \<Longrightarrow> refs_allocated (tracer (emit ps ev t))"
  by (cases ev)
    (simp_all add: beforeMessageHandler_def stepHandler_def afterMessageHandler_def
      catch_block_refs beforeMessage_try_refs step_try_refs afterMessage_try_refs)

lemma run_refs: "refs_allocated t \<Longrightarrow> refs_allocated (run ps evs t)"
  by (induction evs arbitrary: t) (simp_all add: emit_refs)

lemma subtraces_counted_iff:
  "subtraces_counted trace \<longleftrightarrow>
     isPrecompileTrace trace \<or>
     numberOfSubtraces trace = length (filter isSubTrace (steps trace))"
  by (cases trace) simp_all

text \<open>
  C1. After every prefix of every sequence of events, well-formed or not, every frame
  that can have children (a create or a call trace) has \<open>numberOfSubtraces\<close> equal to the
  number of message traces in its \<open>steps\<close>. This holds for every object of the store,
  and the frames of the trace tree are objects of the store: every reference on the
  stack and in the steps of a frame is allocated.
\<close>

theorem subtraces_counted_always:
  "counts_consistent (run ps (take n evs) (tracing dontThrow)) \<and>
   refs_allocated (run ps (take n evs) (tracing dontThrow)) \<and>
   (\<forall>r < length (heap (run ps (take n evs) (tracing dontThrow))).
      \<not> isPrecompileTrace (heap (run ps (take n evs) (tracing dontThrow)) ! r) \<longrightarrow>
      numberOfSubtraces (heap (run ps (take n evs) (tracing dontThrow)) ! r)
        = length (filter isSubTrace (steps (heap (run ps (take n evs) (tracing dontThrow)) ! r))))"
proof -
  have "counts_consistent (tracing dontThrow)" and "refs_allocated (tracing dontThrow)"
    by (simp_all add: counts_consistent_def refs_allocated_def example_defs)
  then have inv: "counts_consistent (run ps (take n evs) (tracing dontThrow))"
    and refs: "refs_allocated (run ps (take n evs) (tracing dontThrow))"
    by (simp_all add: run_counts run_refs)
  from inv have "subtraces_counted (heap (run ps (take n evs) (tracing dontThrow)) ! r)"
    if "r < length (heap (run ps (take n evs) (tracing dontThrow)))" for r
    using that by (simp add: counts_consistent_def list_all_length)
  with inv refs show ?thesis unfolding subtraces_counted_iff by blast
qed

theorem subtraces_counted_always_witness:
  "counts_consistent (run nine_precompiles (take 6 precompile_scenario) (tracing False)) \<and>
   refs_allocated (run nine_precompiles (take 6 precompile_scenario) (tracing False)) \<and>
   0 < length (heap (run nine_precompiles precompile_scenario (tracing False))) \<and>
   \<not> isPrecompileTrace (heap (run nine_precompiles precompile_scenario (tracing False)) ! 0) \<and>
   numberOfSubtraces (heap (run nine_precompiles precompile_scenario (tracing False)) ! 0) = 1 \<and>
   steps (heap (run nine_precompiles precompile_scenario (tracing False)) ! 0)
     = [EvmStep 0, SubTrace 1, EvmStep 3]"
proof -
  have all: "take 6 precompile_scenario = precompile_scenario"
    by (simp add: precompile_scenario_def)
  from subtraces_counted_always [of nine_precompiles 6 precompile_scenario False]
  show ?thesis by (simp add: all precompile_scenario_run)
qed

subsection \<open>The root frame that the query returns\<close>

text \<open>
  C6, as stated, fails: the query succeeds as soon as the \<open>beforeMessage\<close> of a
  top-level message has been processed, when no \<open>afterMessage\<close> has fired and the root
  still has the dummy return data and no deployed contract.
\<close>

theorem open_root_counterexample:
  "getLastTopLevelMessageTrace
     (run nine_precompiles [BeforeMessage code_found (create_message 0)] (tracing False))
     = Inr 0 \<and>
   filter isAfterMessage [BeforeMessage code_found (create_message 0)] = [] \<and>
   heap (run nine_precompiles [BeforeMessage code_found (create_message 0)] (tracing False)) ! 0
     = CreateMessageTrace [0x60, 0x80] [] 5 DUMMY_RETURN_DATA 0 0 None None"
  by (simp add: example_defs handler_defs getLastTopLevelMessageTrace_def)

lemma open_frames_before:
  assumes fr: "open_frames d t" and d: "msg_depth m = d"
    and ok: "fst (beforeMessage_try g ps m t) = None"
  shows "open_frames (Suc d) (tracer (beforeMessageHandler g ps m t))"
proof -
  from fr have keep: "shouldKeepTracing t" by (simp add: open_frames_def)
  from ok obtain trace where new: "new_trace g ps m = Inr trace"
    by (cases "new_trace g ps m") (simp_all add: beforeMessage_try_def Let_def)
  show ?thesis
  proof (cases "d = 0")
    case True
    with keep d new show ?thesis
      by (simp add: open_frames_def beforeMessageHandler_def beforeMessage_try_def Let_def
          catch_block_simps shouldKeepTracing_def)
  next
    case False
    with fr have len: "length (messageTraces t) = d"
      and alloc: "list_all (\<lambda>r. r < length (heap t)) (messageTraces t)"
      by (simp_all add: open_frames_def)
    from len False have ne: "messageTraces t \<noteq> []" by auto
    from False d have nz: "msg_depth m \<noteq> 0" by simp
    have alloc': "list_all (\<lambda>r. r < Suc (length (heap t))) (messageTraces t)"
      using alloc by (auto simp add: list_all_iff)
    from ok new nz ne have top: "\<not> isPrecompileTrace (heap t ! last (messageTraces t))"
      by (auto simp add: beforeMessage_try_def Let_def top_index split: if_splits)
    have res: "tracer (beforeMessageHandler g ps m t)
      = t\<lparr>heap := (heap t)[last (messageTraces t) :=
               inc_numberOfSubtraces (steps_push (SubTrace (length (heap t)))
                 (heap t ! last (messageTraces t)))] @ [trace],
           messageTraces := messageTraces t @ [length (heap t)]\<rparr>"
      using keep new nz ne top
      by (simp add: beforeMessageHandler_def beforeMessage_try_def Let_def catch_block_simps
          top_index)
    show ?thesis
      using keep len alloc'
      by (simp add: res open_frames_def shouldKeepTracing_def)
  qed
qed

lemma open_frames_step:
  assumes fr: "open_frames d t" and pos: "0 < d" and ok: "fst (step_try s t) = None"
  shows "open_frames d (tracer (stepHandler s t))"
proof -
  from fr pos have keep: "shouldKeepTracing t" and len: "length (messageTraces t) = d"
    and alloc: "list_all (\<lambda>r. r < length (heap t)) (messageTraces t)"
    by (simp_all add: open_frames_def)
  from len pos have ne: "messageTraces t \<noteq> []" by auto
  from ok ne have top: "\<not> isPrecompileTrace (heap t ! last (messageTraces t))"
    by (auto simp add: step_try_def Let_def top_index split: if_splits)
  have res: "tracer (stepHandler s t)
      = t\<lparr>heap := (heap t)[last (messageTraces t) :=
               steps_push (EvmStep (pc s)) (heap t ! last (messageTraces t))]\<rparr>"
    using keep ne top
    by (simp add: stepHandler_def step_try_def Let_def catch_block_simps top_index)
  show ?thesis
    using keep len alloc pos
    by (simp add: res open_frames_def shouldKeepTracing_def)
qed

lemma afterMessage_closes:
  assumes keep: "shouldKeepTracing t" and ne: "messageTraces t \<noteq> []"
  shows "\<exists>closed.
           populated_from res closed \<and>
           tracer (afterMessageHandler res t)
             = t\<lparr>heap := (heap t)[last (messageTraces t) := closed],
                 messageTraces := (if 1 < length (messageTraces t)
                                   then butlast (messageTraces t) else messageTraces t)\<rparr>"
proof -
  define p where "p = last (messageTraces t)"
  define tr1 where
    "tr1 = set_returnData (returnValue res) (set_error (exceptionError res) (heap t ! p))"
  define closed where
    "closed = (if isCreateTrace tr1 then set_deployedContract (createdAddress res) tr1 else tr1)"
  have pop: "populated_from res closed"
    by (simp add: populated_from_def closed_def tr1_def)
  have body: "afterMessage_try res t
      = (None,
         if 1 < length (messageTraces t)
         then t\<lparr>heap := (heap t)[p := closed], messageTraces := butlast (messageTraces t)\<rparr>
         else t\<lparr>heap := (heap t)[p := closed]\<rparr>)"
    using ne
    by (simp add: afterMessage_try_def Let_def top_index p_def closed_def tr1_def)
  have "tracer (afterMessageHandler res t)
      = t\<lparr>heap := (heap t)[p := closed],
          messageTraces := (if 1 < length (messageTraces t)
                            then butlast (messageTraces t) else messageTraces t)\<rparr>"
    using keep by (simp add: afterMessageHandler_def body catch_block_simps)
  with pop show ?thesis unfolding p_def by blast
qed

lemma open_frames_after:
  assumes fr: "open_frames d t" and pos: "0 < d"
  shows "open_frames (d - 1) (tracer (afterMessageHandler res t))"
proof -
  from fr pos have keep: "shouldKeepTracing t" and len: "length (messageTraces t) = d"
    and alloc: "list_all (\<lambda>r. r < length (heap t)) (messageTraces t)"
    by (simp_all add: open_frames_def)
  from len pos have ne: "messageTraces t \<noteq> []" by auto
  from afterMessage_closes [OF keep ne, of res] obtain closed where
    res: "tracer (afterMessageHandler res t)
             = t\<lparr>heap := (heap t)[last (messageTraces t) := closed],
                 messageTraces := (if 1 < length (messageTraces t)
                                   then butlast (messageTraces t) else messageTraces t)\<rparr>"
    by blast
  show ?thesis
    using keep len alloc list_all_butlast [OF alloc]
    by (simp add: res open_frames_def shouldKeepTracing_def)
qed

lemma root_closed:
  assumes fr: "open_frames 1 t"
  shows "\<exists>root. messageTraces (tracer (afterMessageHandler res t)) = [root] \<and>
           root < length (heap (tracer (afterMessageHandler res t))) \<and>
           populated_from res (heap (tracer (afterMessageHandler res t)) ! root)"
proof -
  from fr have keep: "shouldKeepTracing t" and len: "length (messageTraces t) = 1"
    and alloc: "list_all (\<lambda>r. r < length (heap t)) (messageTraces t)"
    by (simp_all add: open_frames_def)
  from len obtain root where one: "messageTraces t = [root]"
    by (cases "messageTraces t") simp_all
  then have ne: "messageTraces t \<noteq> []" by simp
  from afterMessage_closes [OF keep ne, of res] obtain closed where
    pop: "populated_from res closed"
    and res: "tracer (afterMessageHandler res t)
             = t\<lparr>heap := (heap t)[last (messageTraces t) := closed],
                 messageTraces := (if 1 < length (messageTraces t)
                                   then butlast (messageTraces t) else messageTraces t)\<rparr>"
    by blast
  from alloc one pop show ?thesis by (simp add: res)
qed

lemma properly_nested_closes:
  assumes "properly_nested d evs" and "evs \<noteq> []" and "no_throw ps evs t"
    and "open_frames d t"
  shows "\<exists>root res. last evs = AfterMessage res \<and>
           messageTraces (run ps evs t) = [root] \<and>
           root < length (heap (run ps evs t)) \<and>
           populated_from res (heap (run ps evs t) ! root)"
  using assms
proof (induction evs arbitrary: d t)
  case Nil
  then show ?case by simp
next
  case (Cons ev evs)
  from Cons.prems(3) have ok: "thrown ps ev t = None"
    and later: "no_throw ps evs (tracer (emit ps ev t))"
    by simp_all
  show ?case
  proof (cases ev)
    case (BeforeMessage g m)
    with Cons.prems(1) have d: "msg_depth m = d" and rest: "properly_nested (Suc d) evs"
      by simp_all
    from rest have ne: "evs \<noteq> []" by auto
    from ok have "fst (beforeMessage_try g ps m t) = None" by (simp add: BeforeMessage)
    from open_frames_before [OF Cons.prems(4) d this]
    have "open_frames (Suc d) (tracer (emit ps ev t))" by (simp add: BeforeMessage)
    from Cons.IH [OF rest ne later this] ne show ?thesis by simp
  next
    case (Step s)
    with Cons.prems(1) have pos: "0 < d" and rest: "properly_nested d evs"
      by simp_all
    from rest pos have ne: "evs \<noteq> []" by auto
    from ok have "fst (step_try s t) = None" by (simp add: Step)
    from open_frames_step [OF Cons.prems(4) pos this]
    have "open_frames d (tracer (emit ps ev t))" by (simp add: Step)
    from Cons.IH [OF rest ne later this] ne show ?thesis by simp
  next
    case (AfterMessage res)
    with Cons.prems(1) have pos: "0 < d" and rest: "properly_nested (d - 1) evs"
      by simp_all
    show ?thesis
    proof (cases "evs = []")
      case True
      with rest pos have "d = 1" by simp
      with Cons.prems(4) have "open_frames 1 t" by simp
      from root_closed [OF this, of res] True show ?thesis by (simp add: AfterMessage)
    next
      case False
      from open_frames_after [OF Cons.prems(4) pos, of res]
      have "open_frames (d - 1) (tracer (emit ps ev t))" by (simp add: AfterMessage)
      from Cons.IH [OF rest False later this] False show ?thesis by simp
    qed
  qed
qed

text \<open>
  C6, amended. After an enabled tracer that is tracing has processed one or more
  complete, properly nested top-level messages without any handler throwing an error,
  the query succeeds and the root frame it returns is fully populated: \<open>error\<close>,
  \<open>returnData\<close> and, for a create trace, \<open>deployedContract\<close> are those of the result
  of the last \<open>afterMessage\<close>, which is the root's own.
\<close>

theorem complete_message_populates_root:
  assumes nested: "properly_nested 0 evs" and some: "evs \<noteq> []"
    and on: "enabled t" and keep: "shouldKeepTracing t"
    and quiet: "no_throw ps evs t"
  shows "\<exists>root res. last evs = AfterMessage res \<and>
           getLastTopLevelMessageTrace (run ps evs t) = Inr root \<and>
           root < length (heap (run ps evs t)) \<and>
           populated_from res (heap (run ps evs t) ! root)"
proof -
  from keep have "open_frames 0 t" by (simp add: open_frames_def)
  from properly_nested_closes [OF nested some quiet this] obtain root res where
    "last evs = AfterMessage res" "messageTraces (run ps evs t) = [root]"
    "root < length (heap (run ps evs t))" "populated_from res (heap (run ps evs t) ! root)"
    by blast
  with on show ?thesis
    by (auto simp add: getLastTopLevelMessageTrace_def run_flags)
qed

theorem complete_message_populates_root_witness:
  "properly_nested 0 precompile_scenario \<and>
   precompile_scenario \<noteq> [] \<and>
   enabled (tracing True) \<and> shouldKeepTracing (tracing True) \<and>
   no_throw nine_precompiles precompile_scenario (tracing True) \<and>
   last precompile_scenario = AfterMessage reverted_result \<and>
   getLastTopLevelMessageTrace (run nine_precompiles precompile_scenario (tracing True))
     = Inr 0 \<and>
   populated_from reverted_result
     (heap (run nine_precompiles precompile_scenario (tracing True)) ! 0)"
proof -
  have h1: "properly_nested 0 precompile_scenario"
    by (simp add: precompile_scenario_def example_defs)
  have h2: "precompile_scenario \<noteq> []"
    by (simp add: precompile_scenario_def)
  have h3: "enabled (tracing True)" and h4: "shouldKeepTracing (tracing True)"
    by (simp_all add: example_defs shouldKeepTracing_def)
  have h5: "no_throw nine_precompiles precompile_scenario (tracing True)"
    by (simp add: precompile_scenario_def example_defs handler_defs)
  have l: "last precompile_scenario = AfterMessage reverted_result"
    by (simp add: precompile_scenario_def)
  from complete_message_populates_root [OF h1 h2 h3 h4 h5] obtain root res where
    "last precompile_scenario = AfterMessage res"
    "getLastTopLevelMessageTrace (run nine_precompiles precompile_scenario (tracing True))
       = Inr root"
    "populated_from res (heap (run nine_precompiles precompile_scenario (tracing True)) ! root)"
    by blast
  moreover have
    "getLastTopLevelMessageTrace (run nine_precompiles precompile_scenario (tracing True))
       = Inr 0"
    by (simp add: precompile_scenario_def example_defs handler_defs
        getLastTopLevelMessageTrace_def)
  ultimately show ?thesis using h1 h2 h3 h4 h5 l by simp
qed

text \<open>
  The condition that no handler throws is needed in error-tolerant mode: a \<open>step\<close> under
  a frame that the tracer takes for a precompile stops the tracing, the \<open>afterMessage\<close>
  of the root is then ignored, and the query returns a root that is not populated.
\<close>

lemma step_under_precompile_freezes:
  "properly_nested 0
     [BeforeMessage code_found tenth_address_message, Step \<lparr>pc = 0\<rparr>, AfterMessage ok_result] \<and>
   \<not> no_throw nine_precompiles
     [BeforeMessage code_found tenth_address_message, Step \<lparr>pc = 0\<rparr>, AfterMessage ok_result]
     (tracing True) \<and>
   getLastTopLevelMessageTrace
     (run nine_precompiles
        [BeforeMessage code_found tenth_address_message, Step \<lparr>pc = 0\<rparr>, AfterMessage ok_result]
        (tracing True)) = Inr 0 \<and>
   heap (run nine_precompiles
        [BeforeMessage code_found tenth_address_message, Step \<lparr>pc = 0\<rparr>, AfterMessage ok_result]
        (tracing True)) ! 0 = PrecompileMessageTrace 10 [] 0 DUMMY_RETURN_DATA 0 None \<and>
   \<not> populated_from ok_result
     (heap (run nine_precompiles
        [BeforeMessage code_found tenth_address_message, Step \<lparr>pc = 0\<rparr>, AfterMessage ok_result]
        (tracing True)) ! 0)"
  by (simp add: tenth_address_message_def example_defs handler_defs populated_from_def
      getLastTopLevelMessageTrace_def)

end
